theory Spec2Isabelle
  imports Complex_Main
begin

section \<open>The measurement calculator of calculator.py\<close>

text \<open>
  The module computes body measurements from two dictionaries of named landmark
  points and a height. Its functions are pure; they raise \<open>ValueError\<close>,
  \<open>KeyError\<close> and \<open>ZeroDivisionError\<close>.

  Numbers: Python's \<open>float\<close> is modelled by \<^typ>\<open>real\<close>. The model therefore has
  no rounding, no overflow, no infinities and no NaN; every statement below is
  about the arithmetic the code writes down, carried out exactly.

  Dictionaries: a \<open>Dict[str, Tuple[float, float]]\<close> is an association list in
  insertion order; \<open>d[k]\<close> is \<^const>\<open>map_of\<close> with a \<open>KeyError\<close> for an
  absent key, \<open>d.values()\<close> and \<open>d.items()\<close> read the list. A Python dictionary
  has no repeated key; no statement below depends on that.
\<close>

subsection \<open>Errors\<close>

text \<open>
  A message built by an f-string keeps its parts: the literal text and the number
  formatted into it.
\<close>

datatype msg_part = Str string | Num real

datatype py_error =
    ValueError "msg_part list"
  | KeyError string
  | ZeroDivisionError

type_synonym point = "real \<times> real"

type_synonym landmarks = "(string \<times> point) list"

text \<open>Sequencing of two computations that may raise: the first error wins.\<close>

definition bind_err :: "py_error + 'a \<Rightarrow> ('a \<Rightarrow> py_error + 'b) \<Rightarrow> py_error + 'b" where
  "bind_err r f = (case r of Inl e \<Rightarrow> Inl e | Inr v \<Rightarrow> f v)"

subsection \<open>Built-ins the module calls\<close>

text \<open>\<open>math.sqrt\<close> raises \<open>ValueError('math domain error')\<close> below zero.\<close>

definition math_sqrt :: "real \<Rightarrow> py_error + real" where
  "math_sqrt x = (if x < 0 then Inl (ValueError [Str ''math domain error'']) else Inr (sqrt x))"

text \<open>
  \<open>max\<close> and \<open>min\<close> of a list keep the first element and replace it by each
  later one that is strictly larger (smaller); on an empty list they raise.
\<close>

fun py_max :: "real list \<Rightarrow> py_error + real" where
  "py_max [] = Inl (ValueError [Str ''max() arg is an empty sequence''])"
| "py_max (x # xs) = Inr (foldl (\<lambda>m v. if v > m then v else m) x xs)"

fun py_min :: "real list \<Rightarrow> py_error + real" where
  "py_min [] = Inl (ValueError [Str ''min() arg is an empty sequence''])"
| "py_min (x # xs) = Inr (foldl (\<lambda>m v. if v < m then v else m) x xs)"

text \<open>\<open>d[k]\<close>.\<close>

definition getitem :: "landmarks \<Rightarrow> string \<Rightarrow> py_error + point" where
  "getitem d k = (case map_of d k of None \<Rightarrow> Inl (KeyError k) | Some v \<Rightarrow> Inr v)"

text \<open>Division of floats: a zero divisor raises.\<close>

definition py_div :: "real \<Rightarrow> real \<Rightarrow> py_error + real" where
  "py_div x y = (if y = 0 then Inl ZeroDivisionError else Inr (x / y))"

subsection \<open>Geometry\<close>

definition euclidean_distance :: "point \<Rightarrow> point \<Rightarrow> py_error + real" where
  "euclidean_distance p1 p2 = math_sqrt ((fst p2 - fst p1)\<^sup>2 + (snd p2 - snd p1)\<^sup>2)"

definition ramanujan_ellipse_circumference :: "real \<Rightarrow> real \<Rightarrow> py_error + real" where
  "ramanujan_ellipse_circumference a b =
     bind_err (py_div ((a - b)\<^sup>2) ((a + b)\<^sup>2)) (\<lambda>h.
     bind_err (math_sqrt ((3 * a + b) * (a + 3 * b))) (\<lambda>r.
     let circumference = pi * (3 * (a + b) - r)
     in Inr circumference))"

subsection \<open>Calibration\<close>

definition calibrate_pixel_to_cm :: "landmarks \<Rightarrow> real \<Rightarrow> py_error + real" where
  "calibrate_pixel_to_cm front_landmarks user_height_cm =
     (if front_landmarks = [] then
        Inl (ValueError [Str ''Front landmarks dictionary is empty''])
      else if user_height_cm \<le> 0 then
        Inl (ValueError [Str ''Invalid height: '', Num user_height_cm,
                         Str ''. Height must be positive.''])
      else
        let y_coordinates = map (\<lambda>coord. snd coord) (map snd front_landmarks)
        in if y_coordinates = [] then
             Inl (ValueError [Str ''No y-coordinates found in landmarks''])
           else
             bind_err (py_min y_coordinates) (\<lambda>min_y.
             bind_err (py_max y_coordinates) (\<lambda>max_y.
             let height_in_pixels = max_y - min_y
             in if height_in_pixels \<le> 0 then
                  Inl (ValueError [Str ''Invalid height in pixels: '', Num height_in_pixels])
                else py_div user_height_cm height_in_pixels)))"

subsection \<open>Linear measurements\<close>

definition calculate_shoulder_width :: "landmarks \<Rightarrow> real \<Rightarrow> py_error + real" where
  "calculate_shoulder_width front_landmarks pixel_to_cm =
     bind_err (getitem front_landmarks ''LEFT_SHOULDER'') (\<lambda>left_shoulder.
     bind_err (getitem front_landmarks ''RIGHT_SHOULDER'') (\<lambda>right_shoulder.
     bind_err (euclidean_distance left_shoulder right_shoulder) (\<lambda>distance_px.
     Inr (distance_px * pixel_to_cm))))"

definition calculate_sleeve_length :: "landmarks \<Rightarrow> real \<Rightarrow> string \<Rightarrow> py_error + real" where
  "calculate_sleeve_length front_landmarks pixel_to_cm side =
     bind_err (getitem front_landmarks (side @ ''_SHOULDER'')) (\<lambda>shoulder.
     bind_err (getitem front_landmarks (side @ ''_ELBOW'')) (\<lambda>elbow.
     bind_err (getitem front_landmarks (side @ ''_WRIST'')) (\<lambda>wrist.
     bind_err (euclidean_distance shoulder elbow) (\<lambda>shoulder_to_elbow.
     bind_err (euclidean_distance elbow wrist) (\<lambda>elbow_to_wrist.
     let total_length_px = shoulder_to_elbow + elbow_to_wrist
     in Inr (total_length_px * pixel_to_cm))))))"

definition calculate_inseam :: "landmarks \<Rightarrow> real \<Rightarrow> py_error + real" where
  "calculate_inseam front_landmarks pixel_to_cm =
     bind_err (getitem front_landmarks ''LEFT_HIP'') (\<lambda>left_hip.
     bind_err (getitem front_landmarks ''RIGHT_HIP'') (\<lambda>right_hip.
     let crotch_x = (fst left_hip + fst right_hip) / 2;
         crotch_y = max (snd left_hip) (snd right_hip);
         crotch = (crotch_x, crotch_y)
     in
     bind_err (getitem front_landmarks ''LEFT_ANKLE'') (\<lambda>left_ankle.
     bind_err (getitem front_landmarks ''RIGHT_ANKLE'') (\<lambda>right_ankle.
     bind_err (euclidean_distance crotch left_ankle) (\<lambda>left_inseam_px.
     bind_err (euclidean_distance crotch right_ankle) (\<lambda>right_inseam_px.
     let avg_inseam_px = (left_inseam_px + right_inseam_px) / 2
     in Inr (avg_inseam_px * pixel_to_cm)))))))"

definition calculate_outseam :: "landmarks \<Rightarrow> real \<Rightarrow> py_error + real" where
  "calculate_outseam front_landmarks pixel_to_cm =
     bind_err (getitem front_landmarks ''LEFT_HIP'') (\<lambda>left_hip.
     bind_err (getitem front_landmarks ''RIGHT_HIP'') (\<lambda>right_hip.
     bind_err (getitem front_landmarks ''LEFT_ANKLE'') (\<lambda>left_ankle.
     bind_err (getitem front_landmarks ''RIGHT_ANKLE'') (\<lambda>right_ankle.
     bind_err (euclidean_distance left_hip left_ankle) (\<lambda>left_outseam_px.
     bind_err (euclidean_distance right_hip right_ankle) (\<lambda>right_outseam_px.
     let avg_outseam_px = (left_outseam_px + right_outseam_px) / 2
     in Inr (avg_outseam_px * pixel_to_cm)))))))"

subsection \<open>Circumferences\<close>

definition calculate_neck_circumference :: "landmarks \<Rightarrow> landmarks \<Rightarrow> real \<Rightarrow> py_error + real" where
  "calculate_neck_circumference front_landmarks side_landmarks pixel_to_cm =
     bind_err (getitem front_landmarks ''LEFT_SHOULDER'') (\<lambda>left_shoulder_front.
     bind_err (getitem front_landmarks ''RIGHT_SHOULDER'') (\<lambda>right_shoulder_front.
     bind_err (euclidean_distance left_shoulder_front right_shoulder_front) (\<lambda>shoulder_width_px.
     let neck_width_px = shoulder_width_px * 0.30 in
     bind_err (getitem side_landmarks ''LEFT_SHOULDER'') (\<lambda>left_shoulder_side.
     bind_err (getitem side_landmarks ''RIGHT_SHOULDER'') (\<lambda>right_shoulder_side.
     let x_coords = [fst left_shoulder_side, fst right_shoulder_side] in
     bind_err (py_max x_coords) (\<lambda>max_x.
     bind_err (py_min x_coords) (\<lambda>min_x.
     let neck_depth_px0 = (max_x - min_x) * 0.30;
         neck_depth_px = (if neck_depth_px0 < neck_width_px * 0.3 then neck_width_px * 0.7
                          else neck_depth_px0);
         a = (neck_width_px / 2) * pixel_to_cm;
         b = (neck_depth_px / 2) * pixel_to_cm
     in ramanujan_ellipse_circumference a b)))))))"

definition calculate_chest_circumference :: "landmarks \<Rightarrow> landmarks \<Rightarrow> real \<Rightarrow> py_error + real" where
  "calculate_chest_circumference front_landmarks side_landmarks pixel_to_cm =
     bind_err (getitem front_landmarks ''LEFT_SHOULDER'') (\<lambda>left_shoulder.
     bind_err (getitem front_landmarks ''RIGHT_SHOULDER'') (\<lambda>right_shoulder.
     bind_err (euclidean_distance left_shoulder right_shoulder) (\<lambda>shoulder_px.
     let chest_width_px = shoulder_px * 1.1 in
     bind_err (getitem side_landmarks ''LEFT_SHOULDER'') (\<lambda>left_shoulder_side.
     bind_err (getitem side_landmarks ''RIGHT_SHOULDER'') (\<lambda>right_shoulder_side.
     let chest_y = (snd left_shoulder_side + snd right_shoulder_side) / 2 in
     bind_err (getitem side_landmarks ''LEFT_HIP'') (\<lambda>left_hip_side.
     let tolerance = \<bar>snd left_shoulder_side - snd left_hip_side\<bar> * 0.2;
         chest_level_points =
           map (\<lambda>(name, coord). fst coord)
             (filter (\<lambda>(name, coord). \<bar>snd coord - chest_y\<bar> < tolerance) side_landmarks)
     in
     bind_err (if chest_level_points \<noteq> [] then
                 bind_err (py_max chest_level_points) (\<lambda>mx.
                 bind_err (py_min chest_level_points) (\<lambda>mn. Inr (mx - mn)))
               else Inr \<bar>fst left_shoulder_side - fst right_shoulder_side\<bar>) (\<lambda>chest_depth_px.
     let a = (chest_width_px / 2) * pixel_to_cm;
         b = (chest_depth_px / 2) * pixel_to_cm
     in ramanujan_ellipse_circumference a b)))))))"

definition calculate_waist_circumference :: "landmarks \<Rightarrow> landmarks \<Rightarrow> real \<Rightarrow> py_error + real" where
  "calculate_waist_circumference front_landmarks side_landmarks pixel_to_cm =
     bind_err (getitem front_landmarks ''LEFT_HIP'') (\<lambda>left_hip.
     bind_err (getitem front_landmarks ''RIGHT_HIP'') (\<lambda>right_hip.
     bind_err (euclidean_distance left_hip right_hip) (\<lambda>waist_width_px.
     bind_err (getitem side_landmarks ''LEFT_HIP'') (\<lambda>left_hip_side.
     bind_err (getitem side_landmarks ''RIGHT_HIP'') (\<lambda>right_hip_side.
     let waist_y = (snd left_hip_side + snd right_hip_side) / 2 in
     bind_err (getitem side_landmarks ''LEFT_SHOULDER'') (\<lambda>left_shoulder_side.
     let tolerance = \<bar>snd left_hip_side - snd left_shoulder_side\<bar> * 0.1;
         waist_level_points =
           map (\<lambda>(name, coord). fst coord)
             (filter (\<lambda>(name, coord). \<bar>snd coord - waist_y\<bar> < tolerance) side_landmarks)
     in
     bind_err (if waist_level_points \<noteq> [] then
                 bind_err (py_max waist_level_points) (\<lambda>mx.
                 bind_err (py_min waist_level_points) (\<lambda>mn. Inr (mx - mn)))
               else Inr \<bar>fst left_hip_side - fst right_hip_side\<bar>) (\<lambda>waist_depth_px.
     let a = (waist_width_px / 2) * pixel_to_cm;
         b = (waist_depth_px / 2) * pixel_to_cm
     in ramanujan_ellipse_circumference a b)))))))"

definition calculate_hip_circumference :: "landmarks \<Rightarrow> landmarks \<Rightarrow> real \<Rightarrow> py_error + real" where
  "calculate_hip_circumference front_landmarks side_landmarks pixel_to_cm =
     bind_err (getitem front_landmarks ''LEFT_HIP'') (\<lambda>left_hip.
     bind_err (getitem front_landmarks ''RIGHT_HIP'') (\<lambda>right_hip.
     bind_err (euclidean_distance left_hip right_hip) (\<lambda>hip_width_px.
     bind_err (getitem side_landmarks ''LEFT_HIP'') (\<lambda>left_hip_side.
     bind_err (getitem side_landmarks ''RIGHT_HIP'') (\<lambda>right_hip_side.
     let hip_y = (snd left_hip_side + snd right_hip_side) / 2 in
     bind_err (getitem side_landmarks ''LEFT_KNEE'') (\<lambda>left_knee_side.
     let tolerance = \<bar>snd left_hip_side - snd left_knee_side\<bar> * 0.2;
         hip_level_points =
           map (\<lambda>(name, coord). fst coord)
             (filter (\<lambda>(name, coord). \<bar>snd coord - hip_y\<bar> < tolerance) side_landmarks)
     in
     bind_err (if hip_level_points \<noteq> [] then
                 bind_err (py_max hip_level_points) (\<lambda>mx.
                 bind_err (py_min hip_level_points) (\<lambda>mn. Inr (mx - mn)))
               else Inr \<bar>fst left_hip_side - fst right_hip_side\<bar>) (\<lambda>hip_depth_px.
     let a = (hip_width_px / 2) * pixel_to_cm;
         b = (hip_depth_px / 2) * pixel_to_cm
     in ramanujan_ellipse_circumference a b)))))))"

definition calculate_bicep_circumference ::
    "landmarks \<Rightarrow> landmarks \<Rightarrow> real \<Rightarrow> string \<Rightarrow> py_error + real" where
  "calculate_bicep_circumference front_landmarks side_landmarks pixel_to_cm side =
     bind_err (getitem front_landmarks (side @ ''_SHOULDER'')) (\<lambda>shoulder.
     bind_err (getitem front_landmarks (side @ ''_ELBOW'')) (\<lambda>elbow.
     let bicep_x_front = (fst shoulder + fst elbow) / 2;
         bicep_y_front = (snd shoulder + snd elbow) / 2
     in
     bind_err (euclidean_distance shoulder elbow) (\<lambda>arm_length_px.
     let bicep_width_px = arm_length_px * 0.20 in
     bind_err (getitem side_landmarks (side @ ''_SHOULDER'')) (\<lambda>shoulder_side.
     bind_err (getitem side_landmarks (side @ ''_ELBOW'')) (\<lambda>elbow_side.
     bind_err (euclidean_distance shoulder_side elbow_side) (\<lambda>arm_length_side_px.
     let bicep_depth_px = arm_length_side_px * 0.20;
         a = (bicep_width_px / 2) * pixel_to_cm;
         b = (bicep_depth_px / 2) * pixel_to_cm
     in ramanujan_ellipse_circumference a b))))))"

definition calculate_thigh_circumference ::
    "landmarks \<Rightarrow> landmarks \<Rightarrow> real \<Rightarrow> string \<Rightarrow> py_error + real" where
  "calculate_thigh_circumference front_landmarks side_landmarks pixel_to_cm side =
     bind_err (getitem front_landmarks (side @ ''_HIP'')) (\<lambda>hip.
     bind_err (getitem front_landmarks (side @ ''_KNEE'')) (\<lambda>knee.
     bind_err (euclidean_distance hip knee) (\<lambda>thigh_length_px.
     let thigh_width_px = thigh_length_px * 0.25 in
     bind_err (getitem side_landmarks (side @ ''_HIP'')) (\<lambda>hip_side.
     bind_err (getitem side_landmarks (side @ ''_KNEE'')) (\<lambda>knee_side.
     bind_err (euclidean_distance hip_side knee_side) (\<lambda>thigh_length_side_px.
     let thigh_depth_px = thigh_length_side_px * 0.25;
         a = (thigh_width_px / 2) * pixel_to_cm;
         b = (thigh_depth_px / 2) * pixel_to_cm
     in ramanujan_ellipse_circumference a b))))))"

subsection \<open>All measurements\<close>

text \<open>
  The dictionary display evaluates its values top to bottom, so the first one that
  raises ends the call; the result is the dictionary in the order written.
\<close>

definition calculate_all_measurements ::
    "landmarks \<Rightarrow> landmarks \<Rightarrow> real \<Rightarrow> py_error + (string \<times> real) list" where
  "calculate_all_measurements front_landmarks side_landmarks user_height_cm =
     bind_err (calibrate_pixel_to_cm front_landmarks user_height_cm) (\<lambda>pixel_to_cm.
     bind_err (calculate_shoulder_width front_landmarks pixel_to_cm) (\<lambda>v1.
     bind_err (calculate_sleeve_length front_landmarks pixel_to_cm ''LEFT'') (\<lambda>v2.
     bind_err (calculate_sleeve_length front_landmarks pixel_to_cm ''RIGHT'') (\<lambda>v3.
     bind_err (calculate_inseam front_landmarks pixel_to_cm) (\<lambda>v4.
     bind_err (calculate_outseam front_landmarks pixel_to_cm) (\<lambda>v5.
     bind_err (calculate_neck_circumference front_landmarks side_landmarks pixel_to_cm) (\<lambda>v6.
     bind_err (calculate_chest_circumference front_landmarks side_landmarks pixel_to_cm) (\<lambda>v7.
     bind_err (calculate_waist_circumference front_landmarks side_landmarks pixel_to_cm) (\<lambda>v8.
     bind_err (calculate_hip_circumference front_landmarks side_landmarks pixel_to_cm) (\<lambda>v9.
     bind_err (calculate_bicep_circumference front_landmarks side_landmarks pixel_to_cm ''LEFT'') (\<lambda>v10.
     bind_err (calculate_bicep_circumference front_landmarks side_landmarks pixel_to_cm ''RIGHT'') (\<lambda>v11.
     bind_err (calculate_thigh_circumference front_landmarks side_landmarks pixel_to_cm ''LEFT'') (\<lambda>v12.
     bind_err (calculate_thigh_circumference front_landmarks side_landmarks pixel_to_cm ''RIGHT'') (\<lambda>v13.
     Inr [(''height'', user_height_cm),
          (''shoulder_width'', v1),
          (''left_sleeve_length'', v2),
          (''right_sleeve_length'', v3),
          (''inseam'', v4),
          (''outseam'', v5),
          (''neck_circumference'', v6),
          (''chest_circumference'', v7),
          (''waist_circumference'', v8),
          (''hip_circumference'', v9),
          (''left_bicep_circumference'', v10),
          (''right_bicep_circumference'', v11),
          (''left_thigh_circumference'', v12),
          (''right_thigh_circumference'', v13)]))))))))))))))"

section \<open>Vocabulary of the statements\<close>

text \<open>
  The definitions of this section are not functions of the module. They name what
  the statements below talk about.
\<close>

text \<open>The first error in a sequence of results, if there is one.\<close>

fun first_error :: "(py_error + 'a) list \<Rightarrow> py_error option" where
  "first_error [] = None"
| "first_error (Inl e # rs) = Some e"
| "first_error (Inr v # rs) = first_error rs"

text \<open>A dictionary with one key removed (\<open>del d[k]\<close>).\<close>

definition remove_key :: "string \<Rightarrow> landmarks \<Rightarrow> landmarks" where
  "remove_key k d = filter (\<lambda>item. fst item \<noteq> k) d"

text \<open>
  The measurement functions of the module, the call of each, and the names each
  one looks up in the front and in the side dictionary, in the order of the source.
\<close>

datatype measurer =
    Shoulder_width
  | Sleeve_length string
  | Inseam
  | Outseam
  | Neck
  | Chest
  | Waist
  | Hip
  | Bicep string
  | Thigh string

fun run_measurer :: "measurer \<Rightarrow> landmarks \<Rightarrow> landmarks \<Rightarrow> real \<Rightarrow> py_error + real" where
  "run_measurer Shoulder_width front side_set s = calculate_shoulder_width front s"
| "run_measurer (Sleeve_length side) front side_set s = calculate_sleeve_length front s side"
| "run_measurer Inseam front side_set s = calculate_inseam front s"
| "run_measurer Outseam front side_set s = calculate_outseam front s"
| "run_measurer Neck front side_set s = calculate_neck_circumference front side_set s"
| "run_measurer Chest front side_set s = calculate_chest_circumference front side_set s"
| "run_measurer Waist front side_set s = calculate_waist_circumference front side_set s"
| "run_measurer Hip front side_set s = calculate_hip_circumference front side_set s"
| "run_measurer (Bicep side) front side_set s = calculate_bicep_circumference front side_set s side"
| "run_measurer (Thigh side) front side_set s = calculate_thigh_circumference front side_set s side"

fun front_names :: "measurer \<Rightarrow> string list" where
  "front_names Shoulder_width = [''LEFT_SHOULDER'', ''RIGHT_SHOULDER'']"
| "front_names (Sleeve_length side) = [side @ ''_SHOULDER'', side @ ''_ELBOW'', side @ ''_WRIST'']"
| "front_names Inseam = [''LEFT_HIP'', ''RIGHT_HIP'', ''LEFT_ANKLE'', ''RIGHT_ANKLE'']"
| "front_names Outseam = [''LEFT_HIP'', ''RIGHT_HIP'', ''LEFT_ANKLE'', ''RIGHT_ANKLE'']"
| "front_names Neck = [''LEFT_SHOULDER'', ''RIGHT_SHOULDER'']"
| "front_names Chest = [''LEFT_SHOULDER'', ''RIGHT_SHOULDER'']"
| "front_names Waist = [''LEFT_HIP'', ''RIGHT_HIP'']"
| "front_names Hip = [''LEFT_HIP'', ''RIGHT_HIP'']"
| "front_names (Bicep side) = [side @ ''_SHOULDER'', side @ ''_ELBOW'']"
| "front_names (Thigh side) = [side @ ''_HIP'', side @ ''_KNEE'']"

fun side_names :: "measurer \<Rightarrow> string list" where
  "side_names Shoulder_width = []"
| "side_names (Sleeve_length side) = []"
| "side_names Inseam = []"
| "side_names Outseam = []"
| "side_names Neck = [''LEFT_SHOULDER'', ''RIGHT_SHOULDER'']"
| "side_names Chest = [''LEFT_SHOULDER'', ''RIGHT_SHOULDER'', ''LEFT_HIP'']"
| "side_names Waist = [''LEFT_HIP'', ''RIGHT_HIP'', ''LEFT_SHOULDER'']"
| "side_names Hip = [''LEFT_HIP'', ''RIGHT_HIP'', ''LEFT_KNEE'']"
| "side_names (Bicep side) = [side @ ''_SHOULDER'', side @ ''_ELBOW'']"
| "side_names (Thigh side) = [side @ ''_HIP'', side @ ''_KNEE'']"

text \<open>
  The thirteen measurement calls of \<open>calculate_all_measurements\<close> in the order of
  its dictionary display, and the fourteen keys of that display.
\<close>

definition measurement_steps :: "landmarks \<Rightarrow> landmarks \<Rightarrow> real \<Rightarrow> (py_error + real) list" where
  "measurement_steps front side_set s =
     [calculate_shoulder_width front s,
      calculate_sleeve_length front s ''LEFT'',
      calculate_sleeve_length front s ''RIGHT'',
      calculate_inseam front s,
      calculate_outseam front s,
      calculate_neck_circumference front side_set s,
      calculate_chest_circumference front side_set s,
      calculate_waist_circumference front side_set s,
      calculate_hip_circumference front side_set s,
      calculate_bicep_circumference front side_set s ''LEFT'',
      calculate_bicep_circumference front side_set s ''RIGHT'',
      calculate_thigh_circumference front side_set s ''LEFT'',
      calculate_thigh_circumference front side_set s ''RIGHT'']"

definition measurement_keys :: "string list" where
  "measurement_keys =
     [''height'', ''shoulder_width'', ''left_sleeve_length'', ''right_sleeve_length'',
      ''inseam'', ''outseam'', ''neck_circumference'', ''chest_circumference'',
      ''waist_circumference'', ''hip_circumference'', ''left_bicep_circumference'',
      ''right_bicep_circumference'', ''left_thigh_circumference'',
      ''right_thigh_circumference'']"

text \<open>The lookups of a list of names in one dictionary, in order.\<close>

fun lookup_all :: "landmarks \<Rightarrow> string list \<Rightarrow> py_error + point list" where
  "lookup_all d [] = Inr []"
| "lookup_all d (k # ks) =
     bind_err (getitem d k) (\<lambda>v. bind_err (lookup_all d ks) (\<lambda>vs. Inr (v # vs)))"

text \<open>
  The band search in the words of the specification: the \<open>x\<close> coordinates of every
  landmark of the side set whose \<open>y\<close> differs from the target by less than the
  tolerance; the depth is the largest minus the smallest of them, and the fallback
  when there is none.
\<close>

definition spec_band :: "landmarks \<Rightarrow> real \<Rightarrow> real \<Rightarrow> real set" where
  "spec_band side_set target tolerance =
     (\<lambda>item. fst (snd item)) ` {item \<in> set side_set. \<bar>snd (snd item) - target\<bar> < tolerance}"

definition spec_band_depth :: "landmarks \<Rightarrow> real \<Rightarrow> real \<Rightarrow> real \<Rightarrow> real" where
  "spec_band_depth side_set target tolerance fallback =
     (if spec_band side_set target tolerance = {} then fallback
      else Max (spec_band side_set target tolerance) - Min (spec_band side_set target tolerance))"

text \<open>A front and a side dictionary with the thirteen landmarks of an upright figure.\<close>

definition example_front :: landmarks where
  "example_front =
     [(''NOSE'', (200, 10)),
      (''LEFT_SHOULDER'', (100, 200)), (''RIGHT_SHOULDER'', (300, 200)),
      (''LEFT_ELBOW'', (100, 350)), (''RIGHT_ELBOW'', (300, 350)),
      (''LEFT_WRIST'', (100, 500)), (''RIGHT_WRIST'', (300, 500)),
      (''LEFT_HIP'', (150, 500)), (''RIGHT_HIP'', (250, 500)),
      (''LEFT_KNEE'', (150, 750)), (''RIGHT_KNEE'', (250, 750)),
      (''LEFT_ANKLE'', (150, 1000)), (''RIGHT_ANKLE'', (250, 1000))]"

definition example_side :: landmarks where
  "example_side =
     [(''NOSE'', (220, 10)),
      (''LEFT_SHOULDER'', (200, 200)), (''RIGHT_SHOULDER'', (240, 200)),
      (''LEFT_ELBOW'', (200, 350)), (''RIGHT_ELBOW'', (240, 350)),
      (''LEFT_WRIST'', (200, 500)), (''RIGHT_WRIST'', (240, 500)),
      (''LEFT_HIP'', (200, 500)), (''RIGHT_HIP'', (240, 500)),
      (''LEFT_KNEE'', (200, 750)), (''RIGHT_KNEE'', (240, 750)),
      (''LEFT_ANKLE'', (200, 1000)), (''RIGHT_ANKLE'', (240, 1000))]"

text \<open>The \<open>y\<close> coordinates of all values of a landmark dictionary.\<close>

definition y_values :: "landmarks \<Rightarrow> real set" where
  "y_values d = (\<lambda>item. snd (snd item)) ` set d"

text \<open>The straight-line distance between two points.\<close>

definition spec_distance :: "point \<Rightarrow> point \<Rightarrow> real" where
  "spec_distance p q = sqrt ((fst q - fst p)\<^sup>2 + (snd q - snd p)\<^sup>2)"

section \<open>Basic facts\<close>

lemma bind_err_Inl [simp]: "bind_err (Inl e) f = Inl e"
  by (simp add: bind_err_def)

lemma bind_err_Inr [simp]: "bind_err (Inr v) f = f v"
  by (simp add: bind_err_def)

text \<open>The argument of the square root is a sum of squares, so a distance never raises.\<close>

lemma euclidean_distance_returns:
  "euclidean_distance p1 p2 = Inr (spec_distance p1 p2)"
  by (simp add: euclidean_distance_def spec_distance_def math_sqrt_def not_less)

lemma foldl_max_Max: "foldl (\<lambda>m v. if v > m then v else m) x xs = Max (set (x # xs))"
proof (induction xs arbitrary: x)
  case Nil
  then show ?case by simp
next
  case (Cons y ys)
  have "Max (set (x # y # ys)) = Max (set ((if y > x then y else x) # ys))"
    by (cases ys) (auto simp: max_def)
  with Cons show ?case by simp
qed

lemma foldl_min_Min: "foldl (\<lambda>m v. if v < m then v else m) x xs = Min (set (x # xs))"
proof (induction xs arbitrary: x)
  case Nil
  then show ?case by simp
next
  case (Cons y ys)
  have "Min (set (x # y # ys)) = Min (set ((if y < x then y else x) # ys))"
    by (cases ys) (auto simp: min_def)
  with Cons show ?case by simp
qed

lemma py_max_nonempty: "xs \<noteq> [] \<Longrightarrow> py_max xs = Inr (Max (set xs))"
  by (cases xs) (simp_all add: foldl_max_Max del: set_simps)

lemma py_min_nonempty: "xs \<noteq> [] \<Longrightarrow> py_min xs = Inr (Min (set xs))"
  by (cases xs) (simp_all add: foldl_min_Min del: set_simps)

section \<open>The ellipse circumference\<close>

text \<open>The three outcomes of the function, by its two arguments.\<close>

lemma ramanujan_unfold:
  "ramanujan_ellipse_circumference a b =
     (if a + b = 0 then Inl ZeroDivisionError
      else if (3 * a + b) * (a + 3 * b) < 0 then Inl (ValueError [Str ''math domain error''])
      else Inr (pi * (3 * (a + b) - sqrt ((3 * a + b) * (a + 3 * b)))))"
  by (simp add: ramanujan_ellipse_circumference_def py_div_def math_sqrt_def)

lemma sqrt_lower:
  assumes "0 \<le> a" "0 \<le> b"
  shows "3 * a + 5 * b \<le> 3 * sqrt ((3 * a + b) * (a + 3 * b))"
proof -
  have "((3 * a + 5 * b) / 3)\<^sup>2 \<le> (3 * a + b) * (a + 3 * b)"
  proof -
    have "0 \<le> 18 * a\<^sup>2 + 60 * (a * b) + 2 * b\<^sup>2" using assms by simp
    then show ?thesis by (simp add: power2_eq_square algebra_simps)
  qed
  then have "(3 * a + 5 * b) / 3 \<le> sqrt ((3 * a + b) * (a + 3 * b))" by (rule real_le_rsqrt)
  then show ?thesis by simp
qed

lemma ramanujan_core_mono:
  assumes "0 \<le> a1" "a1 \<le> a2" "0 \<le> b"
  shows "3 * (a1 + b) - sqrt ((3 * a1 + b) * (a1 + 3 * b))
       \<le> 3 * (a2 + b) - sqrt ((3 * a2 + b) * (a2 + 3 * b))"
proof -
  define d where "d = a2 - a1"
  define s where "s = sqrt ((3 * a1 + b) * (a1 + 3 * b))"
  have d: "0 \<le> d" and a2: "a2 = a1 + d" using assms by (simp_all add: d_def)
  have P1: "0 \<le> (3 * a1 + b) * (a1 + 3 * b)" using assms by simp
  have s0: "0 \<le> s" and s2: "s\<^sup>2 = (3 * a1 + b) * (a1 + 3 * b)" using P1 by (simp_all add: s_def)
  have low: "3 * a1 + 5 * b \<le> 3 * s" unfolding s_def using assms by (intro sqrt_lower) simp_all
  have step: "d * (6 * a1 + 10 * b) \<le> d * (6 * s)" using low d by (intro mult_left_mono) simp_all
  have sq: "0 \<le> d * d" by simp
  have "(s + 3 * d)\<^sup>2 =
      (3 * a2 + b) * (a2 + 3 * b) + (d * (6 * s) - d * (6 * a1 + 10 * b)) + 6 * (d * d)"
    using s2 by (simp add: a2 power2_eq_square algebra_simps)
  with step sq have "(3 * a2 + b) * (a2 + 3 * b) \<le> (s + 3 * d)\<^sup>2" by linarith
  then have "sqrt ((3 * a2 + b) * (a2 + 3 * b)) \<le> s + 3 * d"
    using s0 d by (intro real_le_lsqrt) simp_all
  then show ?thesis unfolding s_def[symmetric] a2 by simp
qed

text \<open>
  Where the function returns at the smaller argument, it returns at the larger one
  too and the value does not decrease: in the first semi-axis, and in the second.
\<close>

lemma ramanujan_mono_first:
  assumes "0 \<le> a1" "a1 \<le> a2" "0 \<le> b" "0 < a1 + b"
  shows "\<exists>c1 c2. ramanujan_ellipse_circumference a1 b = Inr c1
               \<and> ramanujan_ellipse_circumference a2 b = Inr c2 \<and> c1 \<le> c2"
proof -
  have "0 \<le> (3 * a1 + b) * (a1 + 3 * b)" "0 \<le> (3 * a2 + b) * (a2 + 3 * b)"
    using assms by simp_all
  moreover have "a1 + b \<noteq> 0" "a2 + b \<noteq> 0" using assms by simp_all
  ultimately show ?thesis
    using ramanujan_core_mono[OF assms(1-3)] pi_gt_zero
    by (simp add: ramanujan_unfold not_less)
qed

lemma ramanujan_symmetric:
  "ramanujan_ellipse_circumference a b = ramanujan_ellipse_circumference b a"
  by (simp add: ramanujan_unfold add.commute mult.commute)

lemma ramanujan_mono_second:
  assumes "0 \<le> b1" "b1 \<le> b2" "0 \<le> a" "0 < a + b1"
  shows "\<exists>c1 c2. ramanujan_ellipse_circumference a b1 = Inr c1
               \<and> ramanujan_ellipse_circumference a b2 = Inr c2 \<and> c1 \<le> c2"
  using ramanujan_mono_first[of b1 b2 a] assms
  by (simp add: ramanujan_symmetric[of a] add.commute)

text \<open>
  A circle of positive radius: with both semi-axes equal to \<open>r > 0\<close> the function
  returns exactly \<open>2 \<pi> r\<close>, which is within every relative tolerance of it.
\<close>

lemma circle_circumference_positive:
  assumes r: "0 < r"
  shows "ramanujan_ellipse_circumference r r = Inr (2 * pi * r)"
    and "\<exists>c. ramanujan_ellipse_circumference r r = Inr c
           \<and> \<bar>c - 2 * pi * r\<bar> \<le> (1 / 10 ^ 6) * \<bar>2 * pi * r\<bar>"
proof -
  have "(3 * r + r) * (r + 3 * r) = (4 * r)\<^sup>2" by (simp add: power2_eq_square)
  then have "sqrt ((3 * r + r) * (r + 3 * r)) = \<bar>4 * r\<bar>" by (simp only: real_sqrt_abs)
  then have "sqrt ((3 * r + r) * (r + 3 * r)) = 4 * r" using r by simp
  then show eq: "ramanujan_ellipse_circumference r r = Inr (2 * pi * r)"
    using r by (simp add: ramanujan_unfold algebra_simps)
  show "\<exists>c. ramanujan_ellipse_circumference r r = Inr c
           \<and> \<bar>c - 2 * pi * r\<bar> \<le> (1 / 10 ^ 6) * \<bar>2 * pi * r\<bar>"
    unfolding eq by simp
qed

text \<open>
  C6 at radius zero. With both semi-axes equal to \<open>0\<close> the circle has the
  circumference \<open>2 \<pi> 0 = 0\<close>, which the formula of the docstring gives too. The
  function returns no value there, so none within the tolerance: it raises on the
  division whose result it never uses. For every \<open>r > 0\<close> it returns exactly
  \<open>2 \<pi> r\<close> (\<open>circle_circumference_positive\<close>).
\<close>

theorem circle_of_radius_zero_has_no_value:
  "ramanujan_ellipse_circumference 0 0 = Inl ZeroDivisionError
   \<and> \<not> (\<exists>c. ramanujan_ellipse_circumference 0 0 = Inr c
            \<and> \<bar>c - 2 * pi * 0\<bar> \<le> (1 / 10 ^ 6) * \<bar>2 * pi * 0\<bar>)"
  by (simp add: ramanujan_unfold)

text \<open>
  C7 at the origin. Both semi-axes zero are non-negative, and the function has no
  value there to compare: it raises, while at \<open>a = 1\<close>, \<open>b = 0\<close> it returns. The
  formula of the docstring gives \<open>0\<close> at the origin. Everywhere else on the
  non-negative quadrant the function is monotone (\<open>ramanujan_mono_first\<close>,
  \<open>ramanujan_mono_second\<close>).
\<close>

theorem ramanujan_origin_has_no_value:
  "ramanujan_ellipse_circumference 0 0 = Inl ZeroDivisionError
   \<and> ramanujan_ellipse_circumference 1 0 = Inr (pi * (3 - sqrt 3))
   \<and> ramanujan_ellipse_circumference 0 1 = Inr (pi * (3 - sqrt 3))"
  by (simp add: ramanujan_unfold)

text \<open>
  C10. The ellipse circumference function raises \<open>ZeroDivisionError\<close> exactly when
  the two semi-axes sum to zero, whatever the formula would give there; and the
  bicep circumference reaches it when shoulder and elbow coincide in the front
  view and in the side view.
\<close>

theorem ramanujan_zero_division:
  "(ramanujan_ellipse_circumference a b = Inl ZeroDivisionError \<longleftrightarrow> a + b = 0)
   \<and> (map_of front (side @ ''_SHOULDER'') = Some p \<and> map_of front (side @ ''_ELBOW'') = Some p
      \<and> map_of side_set (side @ ''_SHOULDER'') = Some q \<and> map_of side_set (side @ ''_ELBOW'') = Some q
      \<longrightarrow> calculate_bicep_circumference front side_set s side = Inl ZeroDivisionError)"
proof -
  have "ramanujan_ellipse_circumference a b = Inl ZeroDivisionError \<longleftrightarrow> a + b = 0"
    by (simp add: ramanujan_unfold)
  moreover have "calculate_bicep_circumference front side_set s side = Inl ZeroDivisionError"
    if "map_of front (side @ ''_SHOULDER'') = Some p" "map_of front (side @ ''_ELBOW'') = Some p"
       "map_of side_set (side @ ''_SHOULDER'') = Some q" "map_of side_set (side @ ''_ELBOW'') = Some q"
    using that
    by (simp add: calculate_bicep_circumference_def getitem_def euclidean_distance_returns
        spec_distance_def ramanujan_unfold)
  ultimately show ?thesis by blast
qed

theorem ramanujan_zero_division_witness:
  "ramanujan_ellipse_circumference 0 0 = Inl ZeroDivisionError
   \<and> calculate_bicep_circumference
       [(''LEFT_SHOULDER'', (100, 200)), (''LEFT_ELBOW'', (100, 200))]
       [(''LEFT_SHOULDER'', (50, 210)), (''LEFT_ELBOW'', (50, 210))] 2 ''LEFT''
     = Inl ZeroDivisionError"
  using ramanujan_zero_division[of 0 0
      "[(''LEFT_SHOULDER'', (100, 200)), (''LEFT_ELBOW'', (100, 200))]" "''LEFT''" "(100, 200)"
      "[(''LEFT_SHOULDER'', (50, 210)), (''LEFT_ELBOW'', (50, 210))]" "(50, 210)" 2]
  by simp

section \<open>Distance\<close>

text \<open>
  C9. The distance of two points is returned, is the same in both orders, is never
  negative, is zero exactly when the two points are equal, and the distance of a
  point to itself is zero.
\<close>

theorem euclidean_distance_metric:
  "\<exists>d. euclidean_distance p1 p2 = Inr d \<and> euclidean_distance p2 p1 = Inr d \<and> 0 \<le> d
       \<and> (d = 0 \<longleftrightarrow> p1 = p2) \<and> euclidean_distance p1 p1 = Inr 0"
proof -
  have sym: "(fst p1 - fst p2)\<^sup>2 + (snd p1 - snd p2)\<^sup>2 = (fst p2 - fst p1)\<^sup>2 + (snd p2 - snd p1)\<^sup>2"
    by (simp add: power2_commute)
  have z: "(sqrt ((fst p2 - fst p1)\<^sup>2 + (snd p2 - snd p1)\<^sup>2) = 0) = (p1 = p2)"
    by (auto simp: prod_eq_iff)
  show ?thesis
    unfolding euclidean_distance_returns spec_distance_def using sym z by simp
qed

section \<open>Calibration\<close>

text \<open>The outcomes of the calibration of a non-empty dictionary.\<close>

lemma calibrate_unfold:
  "front \<noteq> [] \<Longrightarrow> calibrate_pixel_to_cm front h =
     (if h \<le> 0 then
        Inl (ValueError [Str ''Invalid height: '', Num h, Str ''. Height must be positive.''])
      else if Max (y_values front) - Min (y_values front) \<le> 0 then
        Inl (ValueError [Str ''Invalid height in pixels: '',
                         Num (Max (y_values front) - Min (y_values front))])
      else Inr (h / (Max (y_values front) - Min (y_values front))))"
proof -
  assume ne: "front \<noteq> []"
  have s: "set (map (\<lambda>coord. snd coord) (map snd front)) = y_values front"
    by (auto simp: y_values_def)
  have ne': "map (\<lambda>coord. snd coord) (map snd front) \<noteq> []" using ne by simp
  show ?thesis
    unfolding calibrate_pixel_to_cm_def Let_def py_max_nonempty[OF ne'] py_min_nonempty[OF ne'] s
    using ne by (simp add: py_div_def)
qed

text \<open>
  C1. For a non-empty front dictionary, a height \<open>h > 0\<close> and \<open>maxY - minY > 0\<close>,
  where \<open>maxY\<close> and \<open>minY\<close> are the largest and the smallest \<open>y\<close> over all values
  of the dictionary, the calibration returns \<open>h / (maxY - minY)\<close>.
\<close>

theorem calibrate_returns_ratio:
  "front \<noteq> [] \<Longrightarrow> 0 < h \<Longrightarrow> 0 < Max (y_values front) - Min (y_values front) \<Longrightarrow>
   calibrate_pixel_to_cm front h = Inr (h / (Max (y_values front) - Min (y_values front)))"
  by (simp add: calibrate_unfold)

theorem calibrate_returns_ratio_witness:
  "[(''NOSE'', (150, 10)), (''LEFT_SHOULDER'', (100, 200)), (''LEFT_ANKLE'', (140, 1000))] \<noteq> []
   \<and> (0::real) < 180
   \<and> calibrate_pixel_to_cm
        [(''NOSE'', (150, 10)), (''LEFT_SHOULDER'', (100, 200)), (''LEFT_ANKLE'', (140, 1000))] 180
      = Inr (180 / 990)"
  using calibrate_returns_ratio[of
      "[(''NOSE'', (150, 10)), (''LEFT_SHOULDER'', (100, 200)), (''LEFT_ANKLE'', (140, 1000))]" 180]
  by (simp add: y_values_def)

text \<open>
  C4. The calibration fails exactly when the front dictionary is empty, or the
  height is not positive, or \<open>maxY - minY\<close> is not positive; every error it raises
  is a \<open>ValueError\<close>, never the \<open>KeyError\<close> of a missing landmark; and it fails in
  particular when all front landmarks have the same \<open>y\<close>.
\<close>

theorem calibrate_invalid_input:
  "((\<exists>e. calibrate_pixel_to_cm front h = Inl e) \<longleftrightarrow>
      (front = [] \<or> h \<le> 0 \<or> (front \<noteq> [] \<and> Max (y_values front) - Min (y_values front) \<le> 0)))
   \<and> (\<forall>e. calibrate_pixel_to_cm front h = Inl e \<longrightarrow>
         (\<exists>msg. e = ValueError msg) \<and> (\<forall>k. e \<noteq> KeyError k))
   \<and> (front \<noteq> [] \<and> (\<forall>item \<in> set front. snd (snd item) = y) \<longrightarrow>
        (\<exists>msg. calibrate_pixel_to_cm front h = Inl (ValueError msg)))"
proof (cases "front = []")
  case True
  then show ?thesis by (simp add: calibrate_pixel_to_cm_def)
next
  case False
  have "Max (y_values front) - Min (y_values front) \<le> 0"
    if "\<forall>item \<in> set front. snd (snd item) = y"
  proof -
    have "y_values front = {y}" using that False by (cases front) (auto simp: y_values_def)
    then show ?thesis by simp
  qed
  with False show ?thesis by (auto simp: calibrate_unfold)
qed

theorem calibrate_invalid_input_witness:
  "calibrate_pixel_to_cm [] 180 = Inl (ValueError [Str ''Front landmarks dictionary is empty''])
   \<and> calibrate_pixel_to_cm [(''NOSE'', (150, 10)), (''LEFT_ANKLE'', (140, 1000))] 0
       = Inl (ValueError [Str ''Invalid height: '', Num 0, Str ''. Height must be positive.''])
   \<and> calibrate_pixel_to_cm [(''NOSE'', (150, 500)), (''LEFT_ANKLE'', (140, 500))] 180
       = Inl (ValueError [Str ''Invalid height in pixels: '', Num 0])
   \<and> calibrate_pixel_to_cm [(''NOSE'', (150, 10)), (''LEFT_ANKLE'', (140, 1000))] 180
       = Inr (180 / 990)"
  using calibrate_invalid_input[of "[]" 180 0]
    calibrate_invalid_input[of "[(''NOSE'', (150, 10)), (''LEFT_ANKLE'', (140, 1000))]" 0 0]
    calibrate_invalid_input[of "[(''NOSE'', (150, 500)), (''LEFT_ANKLE'', (140, 500))]" 180 500]
    calibrate_invalid_input[of "[(''NOSE'', (150, 10)), (''LEFT_ANKLE'', (140, 1000))]" 180 0]
  by (simp add: calibrate_pixel_to_cm_def py_div_def)

section \<open>Inseam\<close>

text \<open>
  C8. With both hips and both ankles in the front dictionary, the inseam is the
  scale times the mean of the two distances from the crotch point to the left and
  to the right ankle, the crotch point having the mean of the hips' \<open>x\<close> and the
  larger of the hips' \<open>y\<close>.
\<close>

theorem calculate_inseam_value:
  "map_of front ''LEFT_HIP'' = Some lh \<Longrightarrow> map_of front ''RIGHT_HIP'' = Some rh \<Longrightarrow>
   map_of front ''LEFT_ANKLE'' = Some la \<Longrightarrow> map_of front ''RIGHT_ANKLE'' = Some ra \<Longrightarrow>
   calculate_inseam front s =
     Inr (s * ((spec_distance ((fst lh + fst rh) / 2, max (snd lh) (snd rh)) la
              + spec_distance ((fst lh + fst rh) / 2, max (snd lh) (snd rh)) ra) / 2))"
  by (simp add: calculate_inseam_def getitem_def euclidean_distance_returns Let_def)

theorem calculate_inseam_value_witness:
  "calculate_inseam
     [(''LEFT_HIP'', (100, 500)), (''RIGHT_HIP'', (200, 510)),
      (''LEFT_ANKLE'', (110, 1000)), (''RIGHT_ANKLE'', (190, 1000))] 2
   = Inr (2 * ((spec_distance (150, 510) (110, 1000) + spec_distance (150, 510) (190, 1000)) / 2))"
  using calculate_inseam_value[of
      "[(''LEFT_HIP'', (100, 500)), (''RIGHT_HIP'', (200, 510)),
        (''LEFT_ANKLE'', (110, 1000)), (''RIGHT_ANKLE'', (190, 1000))]"
      "(100, 500)" "(200, 510)" "(110, 1000)" "(190, 1000)" 2]
  by simp

section \<open>Chest circumference\<close>

lemma band_list:
  "set (map (\<lambda>(name, coord). fst coord)
         (filter (\<lambda>(name, coord). \<bar>snd coord - target\<bar> < tolerance) side_set))
   = spec_band side_set target tolerance"
  by (force simp: spec_band_def image_iff)

lemma spread_or_fallback:
  "(if pts \<noteq> [] then bind_err (py_max pts) (\<lambda>mx. bind_err (py_min pts) (\<lambda>mn. Inr (mx - mn)))
    else Inr fallback)
   = Inr (if set pts = {} then fallback else Max (set pts) - Min (set pts))"
  by (simp add: py_max_nonempty py_min_nonempty)

text \<open>
  C3. With the two shoulders in the front dictionary and the two shoulders and the
  left hip in the side dictionary, the chest circumference is the ellipse
  circumference of the semi-axes \<open>width / 2 * scale\<close> and \<open>depth / 2 * scale\<close>, where
  the width is 1.10 times the front shoulder distance and the depth is the band
  search of the specification: over the side landmarks whose \<open>y\<close> is less than 0.2
  times the shoulder-to-hip gap away from the mean shoulder \<open>y\<close>, the largest
  minus the smallest \<open>x\<close>, and the \<open>x\<close> distance of the side shoulders when there is
  no such landmark.
\<close>

theorem chest_depth_and_width:
  "map_of front ''LEFT_SHOULDER'' = Some ls \<Longrightarrow> map_of front ''RIGHT_SHOULDER'' = Some rs \<Longrightarrow>
   map_of side_set ''LEFT_SHOULDER'' = Some lss \<Longrightarrow>
   map_of side_set ''RIGHT_SHOULDER'' = Some rss \<Longrightarrow>
   map_of side_set ''LEFT_HIP'' = Some lhs \<Longrightarrow>
   calculate_chest_circumference front side_set s =
     ramanujan_ellipse_circumference
       ((1.10 * spec_distance ls rs / 2) * s)
       ((spec_band_depth side_set ((snd lss + snd rss) / 2) (0.2 * \<bar>snd lss - snd lhs\<bar>)
            \<bar>fst lss - fst rss\<bar> / 2) * s)"
  unfolding calculate_chest_circumference_def Let_def spread_or_fallback band_list
    spec_band_depth_def
  by (simp add: getitem_def euclidean_distance_returns mult.commute)

theorem chest_depth_and_width_witness:
  "calculate_chest_circumference
     [(''LEFT_SHOULDER'', (100, 200)), (''RIGHT_SHOULDER'', (300, 200))]
     [(''NOSE'', (160, 50)), (''LEFT_SHOULDER'', (140, 200)), (''RIGHT_SHOULDER'', (180, 210)),
      (''LEFT_ELBOW'', (120, 230)), (''LEFT_HIP'', (150, 500))] 2
   = ramanujan_ellipse_circumference ((1.10 * 200 / 2) * 2) (((180 - 120) / 2) * 2)
   \<and> calculate_chest_circumference
     [(''LEFT_SHOULDER'', (100, 200)), (''RIGHT_SHOULDER'', (300, 200))]
     [(''LEFT_SHOULDER'', (140, 100)), (''RIGHT_SHOULDER'', (180, 300)), (''LEFT_HIP'', (150, 500))] 2
   = ramanujan_ellipse_circumference ((1.10 * 200 / 2) * 2) ((\<bar>140 - 180\<bar> / 2) * 2)"
proof -
  have d: "spec_distance (100, 200) (300, 200) = 200"
    by (simp add: spec_distance_def)
  have b1: "spec_band [(''NOSE'', (160, 50)), (''LEFT_SHOULDER'', (140, 200)),
        (''RIGHT_SHOULDER'', (180, 210)), (''LEFT_ELBOW'', (120, 230)), (''LEFT_HIP'', (150, 500))]
        205 60 = {140, 180, 120}"
    unfolding band_list[symmetric] by simp
  have b2: "spec_band [(''LEFT_SHOULDER'', (140, 100)), (''RIGHT_SHOULDER'', (180, 300)),
        (''LEFT_HIP'', (150, 500))] 200 80 = {}"
    unfolding band_list[symmetric] by simp
  show ?thesis
    using chest_depth_and_width[of
      "[(''LEFT_SHOULDER'', (100, 200)), (''RIGHT_SHOULDER'', (300, 200))]" "(100, 200)" "(300, 200)"
      "[(''NOSE'', (160, 50)), (''LEFT_SHOULDER'', (140, 200)), (''RIGHT_SHOULDER'', (180, 210)),
        (''LEFT_ELBOW'', (120, 230)), (''LEFT_HIP'', (150, 500))]" "(140, 200)" "(180, 210)" "(150, 500)" 2]
     chest_depth_and_width[of
      "[(''LEFT_SHOULDER'', (100, 200)), (''RIGHT_SHOULDER'', (300, 200))]" "(100, 200)" "(300, 200)"
      "[(''LEFT_SHOULDER'', (140, 100)), (''RIGHT_SHOULDER'', (180, 300)), (''LEFT_HIP'', (150, 500))]"
      "(140, 100)" "(180, 300)" "(150, 500)" 2]
    by (simp add: d spec_band_depth_def b1 b2)
qed

section \<open>Missing landmarks\<close>

lemma getitem_remove_key:
  "getitem (remove_key n d) k = (if k = n then Inl (KeyError n) else getitem d k)"
proof -
  have "map_of (remove_key n d) k = (if k = n then None else map_of d k)"
    by (induction d) (auto simp: remove_key_def)
  then show ?thesis by (simp add: getitem_def)
qed

lemma getitem_present: "map_of d k \<noteq> None \<Longrightarrow> \<exists>v. getitem d k = Inr v"
  by (auto simp: getitem_def)

lemma lookup_all_present:
  "\<forall>k \<in> set ks. map_of d k \<noteq> None \<Longrightarrow> \<exists>vs. lookup_all d ks = Inr vs"
proof (induction ks)
  case Nil
  then show ?case by simp
next
  case (Cons k ks)
  then obtain v vs where "getitem d k = Inr v" "lookup_all d ks = Inr vs"
    using getitem_present[of d k] by auto
  then show ?case by simp
qed

lemma lookup_all_removed:
  "n \<in> set ks \<Longrightarrow> \<forall>k \<in> set ks. k \<noteq> n \<longrightarrow> map_of d k \<noteq> None \<Longrightarrow>
   lookup_all (remove_key n d) ks = Inl (KeyError n)"
proof (induction ks)
  case Nil
  then show ?case by simp
next
  case (Cons k ks)
  show ?case
  proof (cases "k = n")
    case True
    then show ?thesis by (simp add: getitem_remove_key)
  next
    case False
    with Cons.prems obtain v where v: "getitem d k = Inr v" using getitem_present[of d k] by auto
    from False Cons.prems have "n \<in> set ks" by simp
    with Cons have "lookup_all (remove_key n d) ks = Inl (KeyError n)" by simp
    with v False show ?thesis by (simp add: getitem_remove_key)
  qed
qed

lemma shoulder_width_lookups:
  "lookup_all front [''LEFT_SHOULDER'', ''RIGHT_SHOULDER''] = Inl e \<Longrightarrow>
   calculate_shoulder_width front s = Inl e"
  by (cases "getitem front ''LEFT_SHOULDER''";
      cases "getitem front ''RIGHT_SHOULDER''";
      simp add: calculate_shoulder_width_def euclidean_distance_returns)

lemma sleeve_length_lookups:
  "lookup_all front [(side @ ''_SHOULDER''), (side @ ''_ELBOW''), (side @ ''_WRIST'')] = Inl e \<Longrightarrow>
   calculate_sleeve_length front s side = Inl e"
  by (cases "getitem front (side @ ''_SHOULDER'')";
      cases "getitem front (side @ ''_ELBOW'')";
      cases "getitem front (side @ ''_WRIST'')";
      simp add: calculate_sleeve_length_def euclidean_distance_returns)

lemma inseam_lookups:
  "lookup_all front [''LEFT_HIP'', ''RIGHT_HIP'', ''LEFT_ANKLE'', ''RIGHT_ANKLE''] = Inl e \<Longrightarrow>
   calculate_inseam front s = Inl e"
  by (cases "getitem front ''LEFT_HIP''";
      cases "getitem front ''RIGHT_HIP''";
      cases "getitem front ''LEFT_ANKLE''";
      cases "getitem front ''RIGHT_ANKLE''";
      simp add: calculate_inseam_def euclidean_distance_returns)

lemma outseam_lookups:
  "lookup_all front [''LEFT_HIP'', ''RIGHT_HIP'', ''LEFT_ANKLE'', ''RIGHT_ANKLE''] = Inl e \<Longrightarrow>
   calculate_outseam front s = Inl e"
  by (cases "getitem front ''LEFT_HIP''";
      cases "getitem front ''RIGHT_HIP''";
      cases "getitem front ''LEFT_ANKLE''";
      cases "getitem front ''RIGHT_ANKLE''";
      simp add: calculate_outseam_def euclidean_distance_returns)

lemma neck_lookups:
  "lookup_all front [''LEFT_SHOULDER'', ''RIGHT_SHOULDER''] = Inl e \<Longrightarrow>
   calculate_neck_circumference front side_set s = Inl e"
  "lookup_all front [''LEFT_SHOULDER'', ''RIGHT_SHOULDER''] = Inr fs \<Longrightarrow>
   lookup_all side_set [''LEFT_SHOULDER'', ''RIGHT_SHOULDER''] = Inl e \<Longrightarrow>
   calculate_neck_circumference front side_set s = Inl e"
  by (cases "getitem front ''LEFT_SHOULDER''";
      cases "getitem front ''RIGHT_SHOULDER''";
      cases "getitem side_set ''LEFT_SHOULDER''";
      cases "getitem side_set ''RIGHT_SHOULDER''";
      simp add: calculate_neck_circumference_def euclidean_distance_returns)+

lemma chest_lookups:
  "lookup_all front [''LEFT_SHOULDER'', ''RIGHT_SHOULDER''] = Inl e \<Longrightarrow>
   calculate_chest_circumference front side_set s = Inl e"
  "lookup_all front [''LEFT_SHOULDER'', ''RIGHT_SHOULDER''] = Inr fs \<Longrightarrow>
   lookup_all side_set [''LEFT_SHOULDER'', ''RIGHT_SHOULDER'', ''LEFT_HIP''] = Inl e \<Longrightarrow>
   calculate_chest_circumference front side_set s = Inl e"
  by (cases "getitem front ''LEFT_SHOULDER''";
      cases "getitem front ''RIGHT_SHOULDER''";
      cases "getitem side_set ''LEFT_SHOULDER''";
      cases "getitem side_set ''RIGHT_SHOULDER''";
      cases "getitem side_set ''LEFT_HIP''";
      simp add: calculate_chest_circumference_def euclidean_distance_returns)+

lemma waist_lookups:
  "lookup_all front [''LEFT_HIP'', ''RIGHT_HIP''] = Inl e \<Longrightarrow>
   calculate_waist_circumference front side_set s = Inl e"
  "lookup_all front [''LEFT_HIP'', ''RIGHT_HIP''] = Inr fs \<Longrightarrow>
   lookup_all side_set [''LEFT_HIP'', ''RIGHT_HIP'', ''LEFT_SHOULDER''] = Inl e \<Longrightarrow>
   calculate_waist_circumference front side_set s = Inl e"
  by (cases "getitem front ''LEFT_HIP''";
      cases "getitem front ''RIGHT_HIP''";
      cases "getitem side_set ''LEFT_HIP''";
      cases "getitem side_set ''RIGHT_HIP''";
      cases "getitem side_set ''LEFT_SHOULDER''";
      simp add: calculate_waist_circumference_def euclidean_distance_returns)+

lemma hip_lookups:
  "lookup_all front [''LEFT_HIP'', ''RIGHT_HIP''] = Inl e \<Longrightarrow>
   calculate_hip_circumference front side_set s = Inl e"
  "lookup_all front [''LEFT_HIP'', ''RIGHT_HIP''] = Inr fs \<Longrightarrow>
   lookup_all side_set [''LEFT_HIP'', ''RIGHT_HIP'', ''LEFT_KNEE''] = Inl e \<Longrightarrow>
   calculate_hip_circumference front side_set s = Inl e"
  by (cases "getitem front ''LEFT_HIP''";
      cases "getitem front ''RIGHT_HIP''";
      cases "getitem side_set ''LEFT_HIP''";
      cases "getitem side_set ''RIGHT_HIP''";
      cases "getitem side_set ''LEFT_KNEE''";
      simp add: calculate_hip_circumference_def euclidean_distance_returns)+

lemma bicep_lookups:
  "lookup_all front [(side @ ''_SHOULDER''), (side @ ''_ELBOW'')] = Inl e \<Longrightarrow>
   calculate_bicep_circumference front side_set s side = Inl e"
  "lookup_all front [(side @ ''_SHOULDER''), (side @ ''_ELBOW'')] = Inr fs \<Longrightarrow>
   lookup_all side_set [(side @ ''_SHOULDER''), (side @ ''_ELBOW'')] = Inl e \<Longrightarrow>
   calculate_bicep_circumference front side_set s side = Inl e"
  by (cases "getitem front (side @ ''_SHOULDER'')";
      cases "getitem front (side @ ''_ELBOW'')";
      cases "getitem side_set (side @ ''_SHOULDER'')";
      cases "getitem side_set (side @ ''_ELBOW'')";
      simp add: calculate_bicep_circumference_def euclidean_distance_returns)+

lemma thigh_lookups:
  "lookup_all front [(side @ ''_HIP''), (side @ ''_KNEE'')] = Inl e \<Longrightarrow>
   calculate_thigh_circumference front side_set s side = Inl e"
  "lookup_all front [(side @ ''_HIP''), (side @ ''_KNEE'')] = Inr fs \<Longrightarrow>
   lookup_all side_set [(side @ ''_HIP''), (side @ ''_KNEE'')] = Inl e \<Longrightarrow>
   calculate_thigh_circumference front side_set s side = Inl e"
  by (cases "getitem front (side @ ''_HIP'')";
      cases "getitem front (side @ ''_KNEE'')";
      cases "getitem side_set (side @ ''_HIP'')";
      cases "getitem side_set (side @ ''_KNEE'')";
      simp add: calculate_thigh_circumference_def euclidean_distance_returns)+

lemma run_measurer_front_lookup:
  "lookup_all front (front_names m) = Inl e \<Longrightarrow> run_measurer m front side_set s = Inl e"
  by (cases m)
     (simp_all only: run_measurer.simps front_names.simps shoulder_width_lookups
        sleeve_length_lookups inseam_lookups outseam_lookups neck_lookups(1) chest_lookups(1)
        waist_lookups(1) hip_lookups(1) bicep_lookups(1) thigh_lookups(1))

lemma run_measurer_side_lookup:
  assumes f: "lookup_all front (front_names m) = Inr fs"
    and sd: "lookup_all side_set (side_names m) = Inl e"
  shows "run_measurer m front side_set s = Inl e"
proof (cases m)
  case Neck
  with f sd show ?thesis using neck_lookups(2)[of front fs side_set e s] by simp
next
  case Chest
  with f sd show ?thesis using chest_lookups(2)[of front fs side_set e s] by simp
next
  case Waist
  with f sd show ?thesis using waist_lookups(2)[of front fs side_set e s] by simp
next
  case Hip
  with f sd show ?thesis using hip_lookups(2)[of front fs side_set e s] by simp
next
  case (Bicep side)
  with f sd show ?thesis using bicep_lookups(2)[of front side fs side_set e s] by simp
next
  case (Thigh side)
  with f sd show ?thesis using thigh_lookups(2)[of front side fs side_set e s] by simp
qed (use sd in simp_all)

text \<open>
  C5. Every measurement function fails with the \<open>KeyError\<close> of the name \<open>n\<close> when
  \<open>n\<close> is one of the names it looks up in the front dictionary and has been removed
  from a front dictionary that holds the other names; and likewise when \<open>n\<close> has
  been removed from the side dictionary, the front dictionary being complete.
\<close>

theorem missing_landmark:
  "(n \<in> set (front_names m) \<and> (\<forall>k \<in> set (front_names m). k \<noteq> n \<longrightarrow> map_of front k \<noteq> None)
      \<longrightarrow> run_measurer m (remove_key n front) side_set s = Inl (KeyError n))
   \<and> (n \<in> set (side_names m) \<and> (\<forall>k \<in> set (front_names m). map_of front k \<noteq> None)
        \<and> (\<forall>k \<in> set (side_names m). k \<noteq> n \<longrightarrow> map_of side_set k \<noteq> None)
      \<longrightarrow> run_measurer m front (remove_key n side_set) s = Inl (KeyError n))"
proof (intro conjI impI)
  assume "n \<in> set (front_names m) \<and> (\<forall>k \<in> set (front_names m). k \<noteq> n \<longrightarrow> map_of front k \<noteq> None)"
  then have "lookup_all (remove_key n front) (front_names m) = Inl (KeyError n)"
    by (simp add: lookup_all_removed)
  then show "run_measurer m (remove_key n front) side_set s = Inl (KeyError n)"
    by (rule run_measurer_front_lookup)
next
  assume a: "n \<in> set (side_names m) \<and> (\<forall>k \<in> set (front_names m). map_of front k \<noteq> None)
        \<and> (\<forall>k \<in> set (side_names m). k \<noteq> n \<longrightarrow> map_of side_set k \<noteq> None)"
  then obtain fs where "lookup_all front (front_names m) = Inr fs"
    using lookup_all_present[of "front_names m" front] by blast
  moreover from a have "lookup_all (remove_key n side_set) (side_names m) = Inl (KeyError n)"
    by (simp add: lookup_all_removed)
  ultimately show "run_measurer m front (remove_key n side_set) s = Inl (KeyError n)"
    by (rule run_measurer_side_lookup)
qed

theorem missing_landmark_witness:
  "run_measurer (Sleeve_length ''LEFT'')
     (remove_key ''LEFT_ELBOW''
        [(''LEFT_SHOULDER'', (100, 200)), (''LEFT_ELBOW'', (90, 300)), (''LEFT_WRIST'', (80, 400))])
     [] 2 = Inl (KeyError ''LEFT_ELBOW'')
   \<and> run_measurer Chest
     [(''LEFT_SHOULDER'', (100, 200)), (''RIGHT_SHOULDER'', (300, 200))]
     (remove_key ''LEFT_HIP''
        [(''LEFT_SHOULDER'', (140, 200)), (''RIGHT_SHOULDER'', (180, 210)), (''LEFT_HIP'', (150, 500))])
     2 = Inl (KeyError ''LEFT_HIP'')"
  using missing_landmark[of "''LEFT_ELBOW''" "Sleeve_length ''LEFT''"
      "[(''LEFT_SHOULDER'', (100, 200)), (''LEFT_ELBOW'', (90, 300)), (''LEFT_WRIST'', (80, 400))]"
      "[]" 2]
    missing_landmark[of "''LEFT_HIP''" Chest
      "[(''LEFT_SHOULDER'', (100, 200)), (''RIGHT_SHOULDER'', (300, 200))]"
      "[(''LEFT_SHOULDER'', (140, 200)), (''RIGHT_SHOULDER'', (180, 210)), (''LEFT_HIP'', (150, 500))]" 2]
  by simp

section \<open>All measurements\<close>

lemma bind13:
  "bind_err r1 (\<lambda>v1. bind_err r2 (\<lambda>v2. bind_err r3 (\<lambda>v3. bind_err r4 (\<lambda>v4.
   bind_err r5 (\<lambda>v5. bind_err r6 (\<lambda>v6. bind_err r7 (\<lambda>v7. bind_err r8 (\<lambda>v8.
   bind_err r9 (\<lambda>v9. bind_err r10 (\<lambda>v10. bind_err r11 (\<lambda>v11. bind_err r12 (\<lambda>v12.
   bind_err r13 (\<lambda>v13. Inr (g v1 v2 v3 v4 v5 v6 v7 v8 v9 v10 v11 v12 v13))))))))))))))
   = (case first_error [r1, r2, r3, r4, r5, r6, r7, r8, r9, r10, r11, r12, r13] of
        Some e \<Rightarrow> Inl e
      | None \<Rightarrow> Inr (g (projr r1) (projr r2) (projr r3) (projr r4) (projr r5) (projr r6)
                     (projr r7) (projr r8) (projr r9) (projr r10) (projr r11) (projr r12)
                     (projr r13)))"
  by (cases r1; simp; cases r2; simp; cases r3; simp; cases r4; simp; cases r5; simp;
      cases r6; simp; cases r7; simp; cases r8; simp; cases r9; simp; cases r10; simp;
      cases r11; simp; cases r12; simp; cases r13; simp)

lemma calculate_all_unfold:
  "calculate_all_measurements front side_set h =
     (case calibrate_pixel_to_cm front h of
        Inl e \<Rightarrow> Inl e
      | Inr s \<Rightarrow>
         (case first_error (measurement_steps front side_set s) of
            Some e \<Rightarrow> Inl e
          | None \<Rightarrow> Inr (zip measurement_keys
                           (h # map projr (measurement_steps front side_set s)))))"
proof (cases "calibrate_pixel_to_cm front h")
  case (Inl e)
  then show ?thesis by (simp add: calculate_all_measurements_def)
next
  case (Inr s)
  then show ?thesis
    unfolding calculate_all_measurements_def bind13
    by (cases "first_error (measurement_steps front side_set s)")
       (simp_all add: measurement_steps_def measurement_keys_def)
qed

text \<open>
  C2. A call either returns a dictionary with exactly the fourteen keys, each once,
  whose \<open>height\<close> entry is the input height (and then calibration and all thirteen
  measurements returned), or it returns no dictionary at all and fails with the
  error of the calibration or, when that returned, with the first error among the
  measurements in the order of the source.
\<close>

theorem calculate_all_measurements_outcome:
  "(\<exists>s m. calibrate_pixel_to_cm front h = Inr s
        \<and> first_error (measurement_steps front side_set s) = None
        \<and> calculate_all_measurements front side_set h = Inr m
        \<and> map fst m = measurement_keys
        \<and> fst ` set m =
            {''height'', ''shoulder_width'', ''left_sleeve_length'', ''right_sleeve_length'',
             ''inseam'', ''outseam'', ''neck_circumference'', ''chest_circumference'',
             ''waist_circumference'', ''hip_circumference'', ''left_bicep_circumference'',
             ''right_bicep_circumference'', ''left_thigh_circumference'',
             ''right_thigh_circumference''}
        \<and> distinct (map fst m)
        \<and> map_of m ''height'' = Some h)
   \<or> (\<exists>e. calculate_all_measurements front side_set h = Inl e
        \<and> (calibrate_pixel_to_cm front h = Inl e
           \<or> (\<exists>s. calibrate_pixel_to_cm front h = Inr s
                  \<and> first_error (measurement_steps front side_set s) = Some e)))"
proof (cases "calibrate_pixel_to_cm front h")
  case (Inl e)
  then show ?thesis by (simp add: calculate_all_unfold)
next
  case (Inr s)
  show ?thesis
  proof (cases "first_error (measurement_steps front side_set s)")
    case (Some e)
    with Inr show ?thesis by (simp add: calculate_all_unfold)
  next
    case None
    define m where "m = zip measurement_keys (h # map projr (measurement_steps front side_set s))"
    have len: "length (h # map projr (measurement_steps front side_set s)) = length measurement_keys"
      by (simp add: measurement_steps_def measurement_keys_def)
    have keys: "map fst m = measurement_keys"
      unfolding m_def using len by simp
    have res: "calculate_all_measurements front side_set h = Inr m"
      using Inr None by (simp add: calculate_all_unfold m_def)
    have "fst ` set m = set measurement_keys" using keys by (metis set_map)
    then have kset: "fst ` set m =
            {''height'', ''shoulder_width'', ''left_sleeve_length'', ''right_sleeve_length'',
             ''inseam'', ''outseam'', ''neck_circumference'', ''chest_circumference'',
             ''waist_circumference'', ''hip_circumference'', ''left_bicep_circumference'',
             ''right_bicep_circumference'', ''left_thigh_circumference'',
             ''right_thigh_circumference''}"
      by (simp add: measurement_keys_def)
    have dist: "distinct (map fst m)" unfolding keys by (simp add: measurement_keys_def)
    have hgt: "map_of m ''height'' = Some h"
      unfolding m_def by (simp add: measurement_keys_def measurement_steps_def)
    from Inr None res keys kset dist hgt show ?thesis by blast
  qed
qed


text \<open>
  A run on thirteen landmarks per view, a run on an empty front dictionary, and a
  run on a side dictionary without its left hip.
\<close>

lemma example_calibration: "calibrate_pixel_to_cm example_front 198 = Inr (1 / 5)"
  by (simp add: calibrate_pixel_to_cm_def example_front_def py_div_def)

lemmas measurer_defs =
  calculate_shoulder_width_def calculate_sleeve_length_def calculate_inseam_def
  calculate_outseam_def calculate_neck_circumference_def calculate_chest_circumference_def
  calculate_waist_circumference_def calculate_hip_circumference_def
  calculate_bicep_circumference_def calculate_thigh_circumference_def

lemma example_steps:
  "first_error (measurement_steps example_front example_side (1 / 5)) = None"
  by (simp add: measurement_steps_def measurer_defs example_front_def example_side_def getitem_def
      euclidean_distance_returns spec_distance_def ramanujan_unfold)

lemma example_steps_without_hip:
  "first_error (measurement_steps example_front (remove_key ''LEFT_HIP'' example_side) (1 / 5))
   = Some (KeyError ''LEFT_HIP'')"
  by (simp add: measurement_steps_def measurer_defs example_front_def example_side_def getitem_def
      remove_key_def euclidean_distance_returns spec_distance_def ramanujan_unfold)

theorem calculate_all_measurements_outcome_witness:
  "(\<exists>m. calculate_all_measurements example_front example_side 198 = Inr m
        \<and> map fst m = measurement_keys \<and> map_of m ''height'' = Some 198)
   \<and> calculate_all_measurements [] example_side 198
       = Inl (ValueError [Str ''Front landmarks dictionary is empty''])
   \<and> calculate_all_measurements example_front (remove_key ''LEFT_HIP'' example_side) 198
       = Inl (KeyError ''LEFT_HIP'')"
proof -
  have scale: "s = 1 / 5" if "calibrate_pixel_to_cm example_front 198 = Inr s" for s
    using that unfolding example_calibration by simp
  have run: "\<exists>m. calculate_all_measurements example_front example_side 198 = Inr m
        \<and> map fst m = measurement_keys \<and> map_of m ''height'' = Some 198"
  proof -
    have "\<not> (\<exists>e. calculate_all_measurements example_front example_side 198 = Inl e
        \<and> (calibrate_pixel_to_cm example_front 198 = Inl e
           \<or> (\<exists>s. calibrate_pixel_to_cm example_front 198 = Inr s
                  \<and> first_error (measurement_steps example_front example_side s) = Some e)))"
    proof
      assume "\<exists>e. calculate_all_measurements example_front example_side 198 = Inl e
        \<and> (calibrate_pixel_to_cm example_front 198 = Inl e
           \<or> (\<exists>s. calibrate_pixel_to_cm example_front 198 = Inr s
                  \<and> first_error (measurement_steps example_front example_side s) = Some e))"
      then obtain e where "calibrate_pixel_to_cm example_front 198 = Inl e
           \<or> (\<exists>s. calibrate_pixel_to_cm example_front 198 = Inr s
                  \<and> first_error (measurement_steps example_front example_side s) = Some e)"
        by blast
      then show False
      proof
        assume "calibrate_pixel_to_cm example_front 198 = Inl e"
        then show False unfolding example_calibration by simp
      next
        assume "\<exists>s. calibrate_pixel_to_cm example_front 198 = Inr s
                  \<and> first_error (measurement_steps example_front example_side s) = Some e"
        then obtain s where s: "calibrate_pixel_to_cm example_front 198 = Inr s"
          and e: "first_error (measurement_steps example_front example_side s) = Some e"
          by blast
        from e show False unfolding scale[OF s] example_steps by simp
      qed
    qed
    with calculate_all_measurements_outcome[of example_front 198 example_side]
    show ?thesis by blast
  qed
  have empty: "calculate_all_measurements [] example_side 198
       = Inl (ValueError [Str ''Front landmarks dictionary is empty''])"
    by (simp add: calculate_all_measurements_def calibrate_pixel_to_cm_def)
  have hip: "calculate_all_measurements example_front (remove_key ''LEFT_HIP'' example_side) 198
       = Inl (KeyError ''LEFT_HIP'')"
    using example_calibration example_steps_without_hip by (simp add: calculate_all_unfold)
  from run empty hip show ?thesis by blast
qed

end
